theory Spec2Isabelle
  imports Complex_Main "HOL-Library.AList" "HOL-Library.Sublist"
begin

section \<open>Echo-consensus proposals (broadcast/proposal.py)\<close>

subsection \<open>Data model\<close>

datatype EchoType = RESONANT | DISSONANT | INQUIRY | ABSTAIN

fun EchoType_value :: "EchoType \<Rightarrow> string" where
  "EchoType_value RESONANT = ''resonant''"
| "EchoType_value DISSONANT = ''dissonant''"
| "EchoType_value INQUIRY = ''inquiry''"
| "EchoType_value ABSTAIN = ''abstain''"

datatype ProposalStatus = DRAFT | ACTIVE | CONVERGED | FAILED | EXPIRED

fun ProposalStatus_value :: "ProposalStatus \<Rightarrow> string" where
  "ProposalStatus_value DRAFT = ''draft''"
| "ProposalStatus_value ACTIVE = ''active''"
| "ProposalStatus_value CONVERGED = ''converged''"
| "ProposalStatus_value FAILED = ''failed''"
| "ProposalStatus_value EXPIRED = ''expired''"

text \<open>
  A \<open>datetime\<close> is a point on the wall clock, counted in microseconds (the resolution of
  Python's \<open>datetime\<close>). The clock is an input: every engine operation takes the value
  \<open>now\<close> that \<open>datetime.now()\<close> returns while it runs.
\<close>

type_synonym datetime = int

definition timedelta_hours :: "int \<Rightarrow> int" where
  "timedelta_hours h = h * 3600000000"

text \<open>
  Python dictionaries keep insertion order and a store to an existing key keeps the key's
  position, which is what \<open>AList.update\<close> does on an association list.
\<close>

record EchoResponse =
  node_id :: string
  proposal_id :: string
  echo_type :: EchoType
  commentary :: string
  pattern_analysis :: "(string \<times> string) list"
  timestamp :: datetime

record ConsciousnessProposal =
  id' :: string
  proposer_node :: string
  title :: string
  description :: string
  proposal_type :: string
  created_at :: datetime
  expires_at :: datetime
  status :: ProposalStatus
  echoes :: "(string \<times> EchoResponse) list"
  pattern_embeddings :: "(string \<times> string) list"

text \<open>\<open>EchoResponse.__init__\<close>: \<open>pattern_analysis or {}\<close> with the default \<open>None\<close>.\<close>

definition EchoResponse_init ::
  "string \<Rightarrow> string \<Rightarrow> EchoType \<Rightarrow> string \<Rightarrow> datetime \<Rightarrow> EchoResponse" where
  "EchoResponse_init nid pid et comm now =
     \<lparr> node_id = nid, proposal_id = pid, echo_type = et, commentary = comm,
       pattern_analysis = [], timestamp = now \<rparr>"

text \<open>
  \<open>ConsciousnessProposal.__init__\<close>. The identifier is the result of \<open>uuid.uuid4()\<close>,
  an input of the model, like the clock.
\<close>

definition ConsciousnessProposal_init ::
  "string \<Rightarrow> string \<Rightarrow> string \<Rightarrow> string \<Rightarrow> string \<Rightarrow> int \<Rightarrow> datetime \<Rightarrow> ConsciousnessProposal" where
  "ConsciousnessProposal_init uuid proposer ttl descr ptype duration_hours now =
     \<lparr> id' = uuid, proposer_node = proposer, title = ttl, description = descr,
       proposal_type = ptype, created_at = now,
       expires_at = now + timedelta_hours duration_hours,
       status = DRAFT, echoes = [], pattern_embeddings = [] \<rparr>"

definition is_expired :: "ConsciousnessProposal \<Rightarrow> datetime \<Rightarrow> bool" where
  "is_expired p now = (now > expires_at p)"

text \<open>\<open>add_echo\<close> returns the updated proposal and the line it prints.\<close>

definition add_echo ::
  "ConsciousnessProposal \<Rightarrow> string \<Rightarrow> EchoResponse \<Rightarrow> ConsciousnessProposal \<times> string" where
  "add_echo p nid echo_response =
     (p\<lparr>echoes := AList.update nid echo_response (echoes p)\<rparr>,
      ''Echo received from '' @ nid @ '': '' @ EchoType_value (echo_type echo_response))"

subsection \<open>The tally\<close>

text \<open>
  The dictionary that \<open>calculate_resonance\<close> returns. The branch for an empty vote map
  returns three keys only, so the two other keys are optional.

  Python's \<open>/\<close> on integers is floating-point division; the model divides exactly, in the
  rationals. Where the quotient is 0 or 1 (the cases below) the floating-point result is
  exact as well.
\<close>

record resonance =
  resonance_score :: rat
  consensus_strength :: rat
  dominant_pattern :: string
  echo_distribution :: "(string \<times> int) list option"
  convergence_achieved :: "bool option"

definition EchoType_members :: "EchoType list" where
  "EchoType_members = [RESONANT, DISSONANT, INQUIRY, ABSTAIN]"

fun count_echoes :: "(EchoType \<Rightarrow> int) \<Rightarrow> EchoResponse list \<Rightarrow> (EchoType \<Rightarrow> int)" where
  "count_echoes c [] = c"
| "count_echoes c (e # es) = count_echoes (c(echo_type e := c (echo_type e) + 1)) es"

text \<open>Python's \<open>max\<close> keeps the first of several maximal elements.\<close>

fun max_from :: "int \<Rightarrow> int list \<Rightarrow> int" where
  "max_from best [] = best"
| "max_from best (x # xs) = max_from (if x > best then x else best) xs"

fun max_key_from :: "('a \<Rightarrow> int) \<Rightarrow> 'a \<Rightarrow> 'a list \<Rightarrow> 'a" where
  "max_key_from f best [] = best"
| "max_key_from f best (x # xs) = max_key_from f (if f x > f best then x else best) xs"

definition calculate_resonance :: "ConsciousnessProposal \<Rightarrow> resonance" where
  "calculate_resonance p =
     (if echoes p = [] then
        \<lparr> resonance_score = 0, consensus_strength = 0, dominant_pattern = ''none'',
          echo_distribution = None, convergence_achieved = None \<rparr>
      else
        let echo_counts = count_echoes (\<lambda>_. 0) (map snd (echoes p));
            total_echoes = int (length (echoes p));
            resonance_score = (of_int (echo_counts RESONANT) / of_int total_echoes) * 100;
            strength = of_int (max_from (echo_counts RESONANT)
                                 (map echo_counts [DISSONANT, INQUIRY, ABSTAIN]))
                         / of_int total_echoes;
            dominant = EchoType_value
                         (max_key_from echo_counts RESONANT [DISSONANT, INQUIRY, ABSTAIN])
        in \<lparr> resonance_score = resonance_score,
             consensus_strength = strength * 100,
             dominant_pattern = dominant,
             echo_distribution =
               Some (map (\<lambda>et. (EchoType_value et, echo_counts et)) EchoType_members),
             convergence_achieved = Some (strength \<ge> 8 / 10) \<rparr>)"

subsection \<open>The engine\<close>

text \<open>
  Proposals are mutable objects that the active dictionary, the history list and the
  callers share by reference. The model keeps them in an object store: \<open>heap\<close> maps an
  address to the object's current fields, \<open>next_ref\<close> is the next free address, and the
  two collections of the engine hold addresses. \<open>stdout\<close> collects the printed lines.
\<close>

type_synonym ref = nat

record EchoConsensusEngine =
  heap :: "ref \<Rightarrow> ConsciousnessProposal"
  next_ref :: ref
  active_proposals :: "(string \<times> ref) list"
  proposal_history :: "ref list"
  stdout :: "string list"

definition blank_proposal :: ConsciousnessProposal where
  "blank_proposal = ConsciousnessProposal_init [] [] [] [] [] 0 0"

text \<open>\<open>EchoConsensusEngine.__init__\<close>: no object allocated yet, both collections empty.\<close>

definition EchoConsensusEngine_init :: EchoConsensusEngine where
  "EchoConsensusEngine_init =
     \<lparr> heap = (\<lambda>_. blank_proposal), next_ref = 0, active_proposals = [],
       proposal_history = [], stdout = [] \<rparr>"

text \<open>
  \<open>create_proposal\<close> does not pass \<open>duration_hours\<close>, so the constructor's default of 24
  applies. It returns the new object (its address).
\<close>

definition create_proposal ::
  "EchoConsensusEngine \<Rightarrow> string \<Rightarrow> string \<Rightarrow> string \<Rightarrow> string \<Rightarrow> string \<Rightarrow> datetime
     \<Rightarrow> ref \<times> EchoConsensusEngine" where
  "create_proposal e uuid proposer ttl descr ptype now =
     (let r = next_ref e;
          proposal = ConsciousnessProposal_init uuid proposer ttl descr ptype 24 now;
          proposal = proposal\<lparr>status := ACTIVE\<rparr>
      in (r, e\<lparr> heap := (heap e)(r := proposal),
                next_ref := Suc r,
                active_proposals := AList.update (id' proposal) r (active_proposals e),
                stdout := stdout e @ [''Consciousness proposal created: '' @ ttl] \<rparr>))"

text \<open>
  A call either returns a value or raises an exception; the exceptions are those that the
  modelled code and the library functions it calls can raise.
\<close>

datatype exn = KeyError | TypeError | ValueError | InvalidTag | UnicodeError
  | JSONDecodeError | HandlerError

datatype 'a outcome = Returned 'a | Raised exn

text \<open>
  \<open>submit_echo\<close>. Reading \<open>resonance["convergence_achieved"]\<close> raises \<open>KeyError\<close> when
  the key is absent; the vote has been stored by then.
\<close>

definition submit_echo ::
  "EchoConsensusEngine \<Rightarrow> string \<Rightarrow> string \<Rightarrow> EchoType \<Rightarrow> string \<Rightarrow> datetime
     \<Rightarrow> bool outcome \<times> EchoConsensusEngine" where
  "submit_echo e pid nid et comm now =
     (case map_of (active_proposals e) pid of
        None \<Rightarrow>
          (Returned False, e\<lparr>stdout := stdout e @ [''Proposal '' @ pid @ '' not found'']\<rparr>)
      | Some r \<Rightarrow>
          let proposal = heap e r in
          if is_expired proposal now then
            (Returned False,
             e\<lparr> heap := (heap e)(r := proposal\<lparr>status := EXPIRED\<rparr>),
                stdout := stdout e @ [''Proposal '' @ pid @ '' has expired''] \<rparr>)
          else
            let echo_response = EchoResponse_init nid pid et comm now;
                (proposal, line) = add_echo proposal nid echo_response;
                e = e\<lparr> heap := (heap e)(r := proposal), stdout := stdout e @ [line] \<rparr>;
                resonance = calculate_resonance proposal
            in (case convergence_achieved resonance of
                  None \<Rightarrow> (Raised KeyError, e)
                | Some True \<Rightarrow>
                    (Returned True,
                     e\<lparr> heap := (heap e)(r := proposal\<lparr>status := CONVERGED\<rparr>),
                        proposal_history := proposal_history e @ [r],
                        active_proposals := AList.delete pid (active_proposals e),
                        stdout := stdout e @
                          [''Proposal '' @ title proposal @ '' achieved consensus!''] \<rparr>)
                | Some False \<Rightarrow> (Returned True, e)))"

text \<open>
  \<open>to_dict\<close>: the dictionary sent out for a proposal, a snapshot of its fields with the
  two enumerations as their string values. (\<open>isoformat\<close> of the three times is kept as
  the time itself.)
\<close>

record EchoResponse_dict =
  d_node_id :: string
  d_proposal_id :: string
  d_echo_type :: string
  d_commentary :: string
  d_pattern_analysis :: "(string \<times> string) list"
  d_timestamp :: datetime

definition EchoResponse_to_dict :: "EchoResponse \<Rightarrow> EchoResponse_dict" where
  "EchoResponse_to_dict x =
     \<lparr> d_node_id = node_id x, d_proposal_id = proposal_id x,
       d_echo_type = EchoType_value (echo_type x), d_commentary = commentary x,
       d_pattern_analysis = pattern_analysis x, d_timestamp = timestamp x \<rparr>"

record ConsciousnessProposal_dict =
  d_id :: string
  d_proposer_node :: string
  d_title :: string
  d_description :: string
  d_proposal_type :: string
  d_created_at :: datetime
  d_expires_at :: datetime
  d_status :: string
  d_echoes :: "(string \<times> EchoResponse_dict) list"

definition to_dict :: "ConsciousnessProposal \<Rightarrow> ConsciousnessProposal_dict" where
  "to_dict p =
     \<lparr> d_id = id' p, d_proposer_node = proposer_node p, d_title = title p,
       d_description = description p, d_proposal_type = proposal_type p,
       d_created_at = created_at p, d_expires_at = expires_at p,
       d_status = ProposalStatus_value (status p),
       d_echoes = map (\<lambda>(n, x). (n, EchoResponse_to_dict x)) (echoes p) \<rparr>"

text \<open>
  \<open>list_active_proposals\<close>: a list comprehension over the values of the active
  dictionary. It assigns nothing, so the engine it returns is the engine it was given.
\<close>

definition list_active_proposals ::
  "EchoConsensusEngine \<Rightarrow> datetime
     \<Rightarrow> (ConsciousnessProposal_dict \<times> resonance) list \<times> EchoConsensusEngine" where
  "list_active_proposals e now =
     (map (\<lambda>proposal. (to_dict proposal, calculate_resonance proposal))
          (filter (\<lambda>proposal. \<not> is_expired proposal now)
                  (map (\<lambda>(k, r). heap e r) (active_proposals e))),
      e)"

definition get_proposal_status ::
  "EchoConsensusEngine \<Rightarrow> string \<Rightarrow> (ConsciousnessProposal_dict \<times> resonance) option" where
  "get_proposal_status e pid =
     (case map_of (active_proposals e) pid of
        Some r \<Rightarrow> Some (to_dict (heap e r), calculate_resonance (heap e r))
      | None \<Rightarrow> None)"

text \<open>The engine states that creating proposals and submitting votes can produce.\<close>

inductive reachable :: "EchoConsensusEngine \<Rightarrow> bool" where
  reachable_init: "reachable EchoConsensusEngine_init"
| reachable_create:
    "reachable e \<Longrightarrow> reachable (snd (create_proposal e uuid proposer ttl descr ptype now))"
| reachable_submit:
    "reachable e \<Longrightarrow> reachable (snd (submit_echo e pid nid et comm now))"

subsection \<open>Engine invariant and example states\<close>

text \<open>
  What holds of every engine state that the two mutating operations can produce: the
  collections hold allocated addresses only, no object is under two keys of the active
  dictionary, no object is both active and in the history, and every object in the
  history is converged.
\<close>

definition active_refs :: "EchoConsensusEngine \<Rightarrow> ref set" where
  "active_refs e = snd ` set (active_proposals e)"

definition engine_inv :: "EchoConsensusEngine \<Rightarrow> bool" where
  "engine_inv e \<longleftrightarrow>
     (\<forall>r \<in> active_refs e. r < next_ref e) \<and>
     (\<forall>r \<in> set (proposal_history e). r < next_ref e) \<and>
     distinct (map snd (active_proposals e)) \<and>
     (\<forall>r \<in> set (proposal_history e). r \<notin> active_refs e) \<and>
     (\<forall>r \<in> set (proposal_history e). status (heap e r) = CONVERGED)"

text \<open>
  Example states. \<open>ex_created\<close>: one proposal created at time 0, hence expiring at
  86400000000 (24 hours). \<open>ex_late\<close> is one microsecond after that.
  \<open>ex_two\<close>: a second proposal created later. \<open>ex_voted\<close>: two votes stored by calling
  \<open>add_echo\<close> on the proposal object that \<open>create_proposal\<close> returned.
\<close>

definition ex_created :: EchoConsensusEngine where
  "ex_created = snd (create_proposal EchoConsensusEngine_init ''p1'' ''claude'' ''T'' ''D'' ''general'' 0)"

definition ex_late :: datetime where
  "ex_late = 86400000001"

definition ex_after_late_vote :: EchoConsensusEngine where
  "ex_after_late_vote = snd (submit_echo ex_created ''p1'' ''gemini'' RESONANT ''ok'' ex_late)"

definition ex_converged :: EchoConsensusEngine where
  "ex_converged = snd (submit_echo ex_created ''p1'' ''gemini'' INQUIRY ''why'' 1000)"

definition ex_two :: EchoConsensusEngine where
  "ex_two = snd (create_proposal ex_created ''p2'' ''gemini'' ''U'' ''E'' ''general'' 50000000000)"

definition ex_voted :: EchoConsensusEngine where
  "ex_voted = ex_created\<lparr>heap := (heap ex_created)(0 :=
      fst (add_echo
            (fst (add_echo (heap ex_created 0) ''gemini''
                    (EchoResponse_init ''gemini'' ''p1'' DISSONANT ''no'' 500)))
            ''human'' (EchoResponse_init ''human'' ''p1'' RESONANT ''yes'' 600)))\<rparr>"

section \<open>Secure messaging (security/encryption.py, messaging/echo_bus.py)\<close>

subsection \<open>JSON values and the library\<close>

text \<open>
  What \<open>json.loads\<close> returns. (A dictionary is an association list with distinct keys;
  numbers are integers.)
\<close>

datatype json = JNull | JBool bool | JNum int | JStr string | JArr "json list"
  | JObj "(string \<times> json) list"


text \<open>\<open>data[key]\<close> for a string \<open>key\<close>.\<close>

fun py_getitem :: "json \<Rightarrow> string \<Rightarrow> json outcome" where
  "py_getitem (JObj kvs) k = (case map_of kvs k of Some v \<Rightarrow> Returned v | None \<Rightarrow> Raised KeyError)"
| "py_getitem _ k = Raised TypeError"

type_synonym bytes = string

text \<open>
  The functions of the \<open>cryptography\<close>, \<open>base64\<close> and \<open>json\<close> packages and of the
  built-in string type that the code calls. They are not part of the repository and are
  parameters of the model:
  \<^item> \<open>load_pem_public_key\<close>, \<open>ecdh_exchange\<close> (\<open>private_key.exchange(ec.ECDH(), peer)\<close>),
    \<open>hkdf_derive\<close> (HKDF with SHA-256, 32 bytes, no salt, the fixed info label);
  \<^item> \<open>aes_gcm_encrypt key iv\<close> is the encryptor of
    \<open>Cipher(algorithms.AES(key), modes.GCM(iv))\<close>, a function from the plaintext to the
    ciphertext and the tag, or the exception that building it raises;
    \<open>aes_gcm_decrypt key iv tag ciphertext\<close> is what the decryptor of
    \<open>Cipher(algorithms.AES(key), modes.GCM(iv, tag))\<close> returns, or the exception;
  \<^item> \<open>b64encode\<close>, \<open>b64decode\<close>, \<open>utf8_encode\<close>, \<open>utf8_decode\<close>, \<open>json_loads\<close>.
\<close>

record ('sk, 'pk) library =
  load_pem_public_key :: "bytes \<Rightarrow> 'pk outcome"
  ecdh_exchange :: "'sk \<Rightarrow> 'pk \<Rightarrow> bytes outcome"
  hkdf_derive :: "bytes \<Rightarrow> bytes"
  aes_gcm_encrypt :: "bytes \<Rightarrow> bytes \<Rightarrow> (bytes \<Rightarrow> bytes \<times> bytes) outcome"
  aes_gcm_decrypt :: "bytes \<Rightarrow> bytes \<Rightarrow> bytes \<Rightarrow> bytes \<Rightarrow> bytes outcome"
  b64encode :: "bytes \<Rightarrow> string"
  b64decode :: "string \<Rightarrow> bytes outcome"
  utf8_encode :: "string \<Rightarrow> bytes outcome"
  utf8_decode :: "bytes \<Rightarrow> string outcome"
  json_loads :: "string \<Rightarrow> json outcome"

subsection \<open>\<open>ConsciousnessEncryption\<close>\<close>


text \<open>
  \<open>encrypt_message\<close>; \<open>iv\<close> is the result of \<open>os.urandom(12)\<close>. The dictionary returned
  is the JSON object that is sent.
\<close>

definition encrypt_message ::
  "('sk, 'pk) library \<Rightarrow> bytes \<Rightarrow> string \<Rightarrow> bytes \<Rightarrow> json outcome" where
  "encrypt_message L iv message shared_key =
     (case aes_gcm_encrypt L shared_key iv of
        Raised e \<Rightarrow> Raised e
      | Returned encryptor \<Rightarrow>
          (case utf8_encode L message of
             Raised e \<Rightarrow> Raised e
           | Returned message_bytes \<Rightarrow>
               (case encryptor message_bytes of (ciphertext, tag) \<Rightarrow>
                  Returned (JObj [(''ciphertext'', JStr (b64encode L ciphertext)),
                                  (''iv'', JStr (b64encode L iv)),
                                  (''tag'', JStr (b64encode L tag))]))))"

text \<open>\<open>base64.b64decode(x)\<close> of a JSON value: a string is decoded, anything else is a type error.\<close>

fun py_b64decode :: "('sk, 'pk) library \<Rightarrow> json \<Rightarrow> bytes outcome" where
  "py_b64decode L (JStr s) = b64decode L s"
| "py_b64decode L _ = Raised TypeError"

definition field_b64 :: "('sk, 'pk) library \<Rightarrow> json \<Rightarrow> string \<Rightarrow> bytes outcome" where
  "field_b64 L encrypted_data k =
     (case py_getitem encrypted_data k of
        Raised e \<Rightarrow> Raised e
      | Returned v \<Rightarrow> py_b64decode L v)"

definition decrypt_message :: "('sk, 'pk) library \<Rightarrow> json \<Rightarrow> bytes \<Rightarrow> string outcome" where
  "decrypt_message L encrypted_data shared_key =
     (case field_b64 L encrypted_data ''ciphertext'' of
        Raised e \<Rightarrow> Raised e
      | Returned ciphertext \<Rightarrow>
     (case field_b64 L encrypted_data ''iv'' of
        Raised e \<Rightarrow> Raised e
      | Returned iv \<Rightarrow>
     (case field_b64 L encrypted_data ''tag'' of
        Raised e \<Rightarrow> Raised e
      | Returned tag \<Rightarrow>
     (case aes_gcm_decrypt L shared_key iv tag ciphertext of
        Raised e \<Rightarrow> Raised e
      | Returned message_bytes \<Rightarrow> utf8_decode L message_bytes))))"

subsection \<open>\<open>EchoBus._handle_message\<close>\<close>









text \<open>
  What the library functions are expected to satisfy: decoding inverts encoding for
  base64 and for UTF-8, and AES-GCM decryption under the key, nonce and tag of an
  encryption returns its plaintext.
\<close>

definition library_round_trips :: "('sk, 'pk) library \<Rightarrow> bool" where
  "library_round_trips L \<longleftrightarrow>
     (\<forall>b. b64decode L (b64encode L b) = Returned b) \<and>
     (\<forall>s b. utf8_encode L s = Returned b \<longrightarrow> utf8_decode L b = Returned s) \<and>
     (\<forall>k iv encryptor m c t.
        aes_gcm_encrypt L k iv = Returned encryptor \<and> encryptor m = (c, t)
          \<longrightarrow> aes_gcm_decrypt L k iv t c = Returned m)"


text \<open>
  An example for the handler: a stand-in library whose cipher accepts a ciphertext exactly
  when the tag is the key, a bus that knows the peers \<open>alice\<close> and \<open>bob\<close> in this order,
  and an envelope (received as the text \<open>E\<close>) that is encrypted under the session key of
  \<open>bob\<close> and holds the message \<open>M\<close>.
\<close>

definition ex_message :: json where
  "ex_message = JObj [(''from'', JStr ''bob''), (''to'', JStr ''me''),
                      (''timestamp'', JStr ''t''), (''payload'', JObj [(''type'', JStr ''text'')])]"

definition ex_envelope :: json where
  "ex_envelope = JObj [(''ciphertext'', JStr ''M''), (''iv'', JStr ''iv''), (''tag'', JStr ''kb'')]"

definition ex_library :: "(bytes, bytes) library" where
  "ex_library =
     \<lparr> load_pem_public_key = Returned,
       ecdh_exchange = (\<lambda>sk pk. Returned pk),
       hkdf_derive = (\<lambda>secret. secret),
       aes_gcm_encrypt = (\<lambda>k iv. Returned (\<lambda>m. (m, k))),
       aes_gcm_decrypt = (\<lambda>k iv t c. if t = k then Returned c else Raised InvalidTag),
       b64encode = (\<lambda>b. b),
       b64decode = Returned,
       utf8_encode = Returned,
       utf8_decode = Returned,
       json_loads = (\<lambda>s. if s = ''E'' then Returned ex_envelope
                          else if s = ''M'' then Returned ex_message
                          else Raised JSONDecodeError) \<rparr>"


section \<open>Properties of the consensus engine\<close>

subsection \<open>Association lists\<close>

lemma length_update_mem:
  "k \<in> fst ` set al \<Longrightarrow> length (AList.update k v al) = length al"
  by (induction al) auto

lemma keys_update_mem:
  "k \<in> fst ` set al \<Longrightarrow> map fst (AList.update k v al) = map fst al"
  by (simp add: update_keys)

lemma snd_set_update:
  "snd ` set (AList.update k v al) \<subseteq> insert v (snd ` set al)"
  by (induction al) auto

lemma distinct_snd_update:
  "distinct (map snd al) \<Longrightarrow> v \<notin> snd ` set al \<Longrightarrow> distinct (map snd (AList.update k v al))"
proof (induction al)
  case Nil
  then show ?case by simp
next
  case (Cons p ps)
  show ?case
  proof (cases "fst p = k")
    case True
    with Cons.prems show ?thesis by auto
  next
    case False
    have "snd p \<notin> snd ` set (AList.update k v ps)"
      using snd_set_update[of k v ps] Cons.prems by auto
    with False Cons show ?thesis by auto
  qed
qed

lemma distinct_snd_delete:
  "distinct (map snd al) \<Longrightarrow> distinct (map snd (AList.delete k al))"
  by (simp add: AList.delete_eq distinct_map_filter)

lemma snd_set_delete:
  "snd ` set (AList.delete k al) \<subseteq> snd ` set al"
  by (auto simp: AList.delete_eq)

lemma deleted_ref_gone:
  assumes "map_of al k = Some r" and "distinct (map snd al)"
  shows "r \<notin> snd ` set (AList.delete k al)"
proof
  assume "r \<in> snd ` set (AList.delete k al)"
  then obtain k' where k': "(k', r) \<in> set al" "k' \<noteq> k"
    by (auto simp: AList.delete_eq)
  from assms(1) have kr: "(k, r) \<in> set al" by (rule map_of_SomeD)
  from assms(2) have "inj_on snd (set al)" by (simp add: distinct_map)
  from inj_onD[OF this _ kr k'(1)] k'(2) show False by simp
qed

subsection \<open>The tally and the steps of \<open>submit_echo\<close>\<close>

lemma calculate_resonance_single:
  assumes "echoes p = [(n, x)]"
  shows "consensus_strength (calculate_resonance p) = 100"
    and "convergence_achieved (calculate_resonance p) = Some True"
  using assms by (cases "echo_type x"; simp add: calculate_resonance_def Let_def)+

lemma calculate_resonance_status [simp]:
  "calculate_resonance (p\<lparr>status := s\<rparr>) = calculate_resonance p"
  by (simp add: calculate_resonance_def)

lemma calculate_resonance_nonempty:
  "echoes p \<noteq> [] \<Longrightarrow> \<exists>b. convergence_achieved (calculate_resonance p) = Some b"
  by (simp add: calculate_resonance_def Let_def)

lemma submit_echo_not_found:
  "pid \<notin> fst ` set (active_proposals e) \<Longrightarrow>
   submit_echo e pid nid et comm now =
     (Returned False, e\<lparr>stdout := stdout e @ [''Proposal '' @ pid @ '' not found'']\<rparr>)"
proof -
  assume "pid \<notin> fst ` set (active_proposals e)"
  then have "map_of (active_proposals e) pid = None"
    by (simp add: map_of_eq_None_iff)
  then show ?thesis
    by (simp add: submit_echo_def)
qed

lemma submit_echo_expired:
  "map_of (active_proposals e) pid = Some r \<Longrightarrow> is_expired (heap e r) now \<Longrightarrow>
   submit_echo e pid nid et comm now =
     (Returned False,
      e\<lparr> heap := (heap e)(r := (heap e r)\<lparr>status := EXPIRED\<rparr>),
         stdout := stdout e @ [''Proposal '' @ pid @ '' has expired''] \<rparr>)"
  by (simp add: submit_echo_def Let_def)

lemma submit_echo_first_vote:
  assumes act: "map_of (active_proposals e) pid = Some r"
      and emp: "echoes (heap e r) = []"
      and fresh: "\<not> is_expired (heap e r) now"
  shows "submit_echo e pid nid et comm now =
     (Returned True,
      e\<lparr> heap := (heap e)(r := (heap e r)
                 \<lparr>echoes := [(nid, EchoResponse_init nid pid et comm now)],
                  status := CONVERGED\<rparr>),
         proposal_history := proposal_history e @ [r],
         active_proposals := AList.delete pid (active_proposals e),
         stdout := stdout e @
           [''Echo received from '' @ nid @ '': '' @ EchoType_value et,
            ''Proposal '' @ title (heap e r) @ '' achieved consensus!''] \<rparr>)"
proof -
  let ?x = "EchoResponse_init nid pid et comm now"
  let ?p = "(heap e r)\<lparr>echoes := [(nid, ?x)]\<rparr>"
  have conv: "convergence_achieved (calculate_resonance ?p) = Some True"
    by (rule calculate_resonance_single(2)[of _ nid ?x]) simp
  from act emp fresh conv show ?thesis
    by (simp add: submit_echo_def add_echo_def Let_def EchoResponse_init_def)
qed

lemma submit_echo_vote:
  assumes act: "map_of (active_proposals e) pid = Some r"
      and fresh: "\<not> is_expired (heap e r) now"
  shows "fst (submit_echo e pid nid et comm now) = Returned True"
    and "echoes (heap (snd (submit_echo e pid nid et comm now)) r) =
           AList.update nid (EchoResponse_init nid pid et comm now) (echoes (heap e r))"
proof -
  let ?p = "(heap e r)\<lparr>echoes := AList.update nid (EchoResponse_init nid pid et comm now) (echoes (heap e r))\<rparr>"
  obtain b where b: "convergence_achieved (calculate_resonance ?p) = Some b"
    using calculate_resonance_nonempty[of ?p] by auto
  from act fresh b show "fst (submit_echo e pid nid et comm now) = Returned True"
    by (cases b) (simp_all add: submit_echo_def add_echo_def Let_def)
  from act fresh b show "echoes (heap (snd (submit_echo e pid nid et comm now)) r) =
           AList.update nid (EchoResponse_init nid pid et comm now) (echoes (heap e r))"
    by (cases b) (simp_all add: submit_echo_def add_echo_def Let_def)
qed

lemma create_proposal_eq:
  "create_proposal e uuid proposer ttl descr ptype now =
     (next_ref e,
      e\<lparr> heap := (heap e)(next_ref e :=
                   (ConsciousnessProposal_init uuid proposer ttl descr ptype 24 now)\<lparr>status := ACTIVE\<rparr>),
         next_ref := Suc (next_ref e),
         active_proposals := AList.update uuid (next_ref e) (active_proposals e),
         stdout := stdout e @ [''Consciousness proposal created: '' @ ttl] \<rparr>)"
  by (simp add: create_proposal_def Let_def ConsciousnessProposal_init_def)

lemma ex_created_eq:
  "ex_created =
     \<lparr> heap = (\<lambda>_. blank_proposal)(0 :=
          \<lparr> id' = ''p1'', proposer_node = ''claude'', title = ''T'', description = ''D'',
            proposal_type = ''general'', created_at = 0, expires_at = 86400000000,
            status = ACTIVE, echoes = [], pattern_embeddings = [] \<rparr>),
       next_ref = Suc 0, active_proposals = [(''p1'', 0)], proposal_history = [],
       stdout = [''Consciousness proposal created: T''] \<rparr>"
  by (simp add: ex_created_def create_proposal_def EchoConsensusEngine_init_def
        ConsciousnessProposal_init_def timedelta_hours_def Let_def)

lemma ex_two_active: "active_proposals ex_two = [(''p1'', 0), (''p2'', Suc 0)]"
  by (simp add: ex_two_def ex_created_eq create_proposal_def Let_def ConsciousnessProposal_init_def)

lemma ex_two_expires:
  "expires_at (heap ex_two 0) = 86400000000" "expires_at (heap ex_two (Suc 0)) = 136400000000"
  by (simp_all add: ex_two_def ex_created_eq create_proposal_def Let_def
        ConsciousnessProposal_init_def timedelta_hours_def)

lemma ex_voted_echoes:
  "echoes (heap ex_voted 0) =
     [(''gemini'', EchoResponse_init ''gemini'' ''p1'' DISSONANT ''no'' 500),
      (''human'', EchoResponse_init ''human'' ''p1'' RESONANT ''yes'' 600)]"
  by (simp add: ex_voted_def ex_created_eq add_echo_def)

subsection \<open>The invariant\<close>

lemma engine_invI:
  assumes "\<And>r. r \<in> active_refs e \<Longrightarrow> r < next_ref e"
      and "\<And>r. r \<in> set (proposal_history e) \<Longrightarrow> r < next_ref e"
      and "distinct (map snd (active_proposals e))"
      and "\<And>r. r \<in> set (proposal_history e) \<Longrightarrow> r \<notin> active_refs e"
      and "\<And>r. r \<in> set (proposal_history e) \<Longrightarrow> status (heap e r) = CONVERGED"
  shows "engine_inv e"
  unfolding engine_inv_def
proof (intro conjI ballI)
  fix r assume "r \<in> active_refs e" then show "r < next_ref e" by (rule assms(1))
next
  fix r assume "r \<in> set (proposal_history e)" then show "r < next_ref e" by (rule assms(2))
next
  show "distinct (map snd (active_proposals e))" by (rule assms(3))
next
  fix r assume "r \<in> set (proposal_history e)" then show "r \<notin> active_refs e" by (rule assms(4))
next
  fix r assume "r \<in> set (proposal_history e)"
  then show "status (heap e r) = CONVERGED" by (rule assms(5))
qed

lemma engine_inv_active_lt:
  "engine_inv e \<Longrightarrow> r \<in> active_refs e \<Longrightarrow> r < next_ref e"
  unfolding engine_inv_def by (elim conjE) (erule (1) bspec)

lemma engine_inv_history_lt:
  "engine_inv e \<Longrightarrow> r \<in> set (proposal_history e) \<Longrightarrow> r < next_ref e"
  unfolding engine_inv_def by (elim conjE) (erule (1) bspec)

lemma engine_inv_distinct:
  "engine_inv e \<Longrightarrow> distinct (map snd (active_proposals e))"
  unfolding engine_inv_def by (elim conjE)

lemma engine_inv_disjoint:
  "engine_inv e \<Longrightarrow> r \<in> set (proposal_history e) \<Longrightarrow> r \<notin> active_refs e"
  unfolding engine_inv_def by (elim conjE) (erule (1) bspec)

lemma engine_inv_converged:
  "engine_inv e \<Longrightarrow> r \<in> set (proposal_history e) \<Longrightarrow> status (heap e r) = CONVERGED"
  unfolding engine_inv_def by (elim conjE) (erule (1) bspec)

lemma engine_inv_stdout:
  "engine_inv (e\<lparr>stdout := out\<rparr>) = engine_inv e"
  by (simp add: engine_inv_def active_refs_def)

lemma engine_inv_init: "engine_inv EchoConsensusEngine_init"
  by (simp add: engine_inv_def active_refs_def EchoConsensusEngine_init_def)

lemma active_refs_heap [simp]: "active_refs (e\<lparr>heap := h\<rparr>) = active_refs e"
  by (simp add: active_refs_def)

lemma map_of_active_ref:
  "map_of (active_proposals e) pid = Some r \<Longrightarrow> r \<in> active_refs e"
  unfolding active_refs_def by (drule map_of_SomeD) (rule image_eqI[where x = "(pid, r)"], simp_all)

lemma engine_inv_create:
  assumes inv: "engine_inv e"
  shows "engine_inv (snd (create_proposal e uuid proposer ttl descr ptype now))"
proof -
  define e' where "e' = snd (create_proposal e uuid proposer ttl descr ptype now)"
  define p where "p = (ConsciousnessProposal_init uuid proposer ttl descr ptype 24 now)\<lparr>status := ACTIVE\<rparr>"
  have fh: "heap e' = (heap e)(next_ref e := p)"
    and fn: "next_ref e' = Suc (next_ref e)"
    and fa: "active_proposals e' = AList.update uuid (next_ref e) (active_proposals e)"
    and fp: "proposal_history e' = proposal_history e"
    by (simp_all add: e'_def p_def create_proposal_eq)
  have fresh: "next_ref e \<notin> active_refs e"
    using engine_inv_active_lt[OF inv, of "next_ref e"] by blast
  have hfresh: "next_ref e \<notin> set (proposal_history e)"
    using engine_inv_history_lt[OF inv, of "next_ref e"] by blast
  have sub: "active_refs e' \<subseteq> insert (next_ref e) (active_refs e)"
    unfolding active_refs_def fa by (rule snd_set_update)
  have "engine_inv e'"
  proof (rule engine_invI)
    fix r assume "r \<in> active_refs e'"
    with sub have "r = next_ref e \<or> r \<in> active_refs e" by blast
    then have "r < Suc (next_ref e)"
    proof
      assume "r = next_ref e" then show ?thesis by simp
    next
      assume "r \<in> active_refs e"
      then have "r < next_ref e" by (rule engine_inv_active_lt[OF inv])
      then show ?thesis by simp
    qed
    then show "r < next_ref e'" by (simp add: fn)
  next
    fix r assume "r \<in> set (proposal_history e')"
    then have "r \<in> set (proposal_history e)" by (simp add: fp)
    then have "r < next_ref e" by (rule engine_inv_history_lt[OF inv])
    then show "r < next_ref e'" by (simp add: fn)
  next
    have "distinct (map snd (AList.update uuid (next_ref e) (active_proposals e)))"
      using engine_inv_distinct[OF inv] fresh[unfolded active_refs_def]
      by (rule distinct_snd_update)
    then show "distinct (map snd (active_proposals e'))" by (simp add: fa)
  next
    fix r assume "r \<in> set (proposal_history e')"
    then have h: "r \<in> set (proposal_history e)" by (simp add: fp)
    from engine_inv_disjoint[OF inv h] hfresh h sub
    show "r \<notin> active_refs e'" by blast
  next
    fix r assume "r \<in> set (proposal_history e')"
    then have hr: "r \<in> set (proposal_history e)" by (simp add: fp)
    with hfresh have "r \<noteq> next_ref e" by blast
    then have "heap e' r = heap e r" by (simp add: fh)
    then show "status (heap e' r) = CONVERGED"
      using engine_inv_converged[OF inv hr] by simp
  qed
  then show ?thesis by (simp only: e'_def)
qed

lemma engine_inv_heap_active:
  assumes inv: "engine_inv e" and r: "r \<in> active_refs e"
  shows "engine_inv (e\<lparr>heap := (heap e)(r := p)\<rparr>)"
proof -
  define e' where "e' = e\<lparr>heap := (heap e)(r := p)\<rparr>"
  have fh: "heap e' = (heap e)(r := p)"
    and fn: "next_ref e' = next_ref e"
    and fa: "active_refs e' = active_refs e"
    and fl: "active_proposals e' = active_proposals e"
    and fp: "proposal_history e' = proposal_history e"
    by (simp_all add: e'_def)
  have "engine_inv e'"
  proof (rule engine_invI)
    fix q assume "q \<in> active_refs e'"
    then have "q \<in> active_refs e" by (simp add: fa)
    then have "q < next_ref e" by (rule engine_inv_active_lt[OF inv])
    then show "q < next_ref e'" by (simp add: fn)
  next
    fix q assume "q \<in> set (proposal_history e')"
    then have "q \<in> set (proposal_history e)" by (simp add: fp)
    then have "q < next_ref e" by (rule engine_inv_history_lt[OF inv])
    then show "q < next_ref e'" by (simp add: fn)
  next
    show "distinct (map snd (active_proposals e'))"
      using engine_inv_distinct[OF inv] by (simp add: fl)
  next
    fix q assume "q \<in> set (proposal_history e')"
    then have "q \<in> set (proposal_history e)" by (simp add: fp)
    then have "q \<notin> active_refs e" by (rule engine_inv_disjoint[OF inv])
    then show "q \<notin> active_refs e'" by (simp add: fa)
  next
    fix q assume "q \<in> set (proposal_history e')"
    then have hq: "q \<in> set (proposal_history e)" by (simp add: fp)
    from engine_inv_disjoint[OF inv hq] r have "q \<noteq> r" by blast
    then have "heap e' q = heap e q" by (simp add: fh)
    then show "status (heap e' q) = CONVERGED"
      using engine_inv_converged[OF inv hq] by simp
  qed
  then show ?thesis by (simp only: e'_def)
qed

lemma engine_inv_converge:
  assumes inv: "engine_inv e" and act: "map_of (active_proposals e) pid = Some r"
      and st: "status p = CONVERGED"
  shows "engine_inv (e\<lparr> heap := (heap e)(r := p),
                         proposal_history := proposal_history e @ [r],
                         active_proposals := AList.delete pid (active_proposals e) \<rparr>)"
proof -
  define e' where "e' = e\<lparr> heap := (heap e)(r := p),
                         proposal_history := proposal_history e @ [r],
                         active_proposals := AList.delete pid (active_proposals e) \<rparr>"
  have fh: "heap e' = (heap e)(r := p)"
    and fn: "next_ref e' = next_ref e"
    and fl: "active_proposals e' = AList.delete pid (active_proposals e)"
    and fp: "proposal_history e' = proposal_history e @ [r]"
    by (simp_all add: e'_def)
  have rin: "r \<in> active_refs e" using act by (rule map_of_active_ref)
  have rlt: "r < next_ref e" using inv rin by (rule engine_inv_active_lt)
  have gone: "r \<notin> active_refs e'"
    unfolding active_refs_def fl using act engine_inv_distinct[OF inv] by (rule deleted_ref_gone)
  have sub: "active_refs e' \<subseteq> active_refs e"
    unfolding active_refs_def fl by (rule snd_set_delete)
  have hist: "\<And>q. q \<in> set (proposal_history e') \<Longrightarrow> q = r \<or> q \<in> set (proposal_history e)"
    by (auto simp: fp)
  have "engine_inv e'"
  proof (rule engine_invI)
    fix q assume "q \<in> active_refs e'"
    with sub have "q \<in> active_refs e" by blast
    then have "q < next_ref e" by (rule engine_inv_active_lt[OF inv])
    then show "q < next_ref e'" by (simp add: fn)
  next
    fix q assume "q \<in> set (proposal_history e')"
    then have "q = r \<or> q \<in> set (proposal_history e)" by (rule hist)
    then have "q < next_ref e"
      using rlt engine_inv_history_lt[OF inv, of q] by blast
    then show "q < next_ref e'" by (simp add: fn)
  next
    have "distinct (map snd (AList.delete pid (active_proposals e)))"
      using engine_inv_distinct[OF inv] by (rule distinct_snd_delete)
    then show "distinct (map snd (active_proposals e'))" by (simp add: fl)
  next
    fix q assume "q \<in> set (proposal_history e')"
    then have "q = r \<or> q \<in> set (proposal_history e)" by (rule hist)
    then show "q \<notin> active_refs e'"
      using gone sub engine_inv_disjoint[OF inv, of q] by blast
  next
    fix q assume "q \<in> set (proposal_history e')"
    then have "q = r \<or> q \<in> set (proposal_history e)" by (rule hist)
    then show "status (heap e' q) = CONVERGED"
    proof
      assume "q = r"
      then show ?thesis using st by (simp add: fh)
    next
      assume hq: "q \<in> set (proposal_history e)"
      from engine_inv_disjoint[OF inv hq] rin have "q \<noteq> r" by blast
      then have "heap e' q = heap e q" by (simp add: fh)
      then show ?thesis using engine_inv_converged[OF inv hq] by simp
    qed
  qed
  then show ?thesis by (simp only: e'_def)
qed

lemma engine_inv_submit:
  assumes inv: "engine_inv e"
  shows "engine_inv (snd (submit_echo e pid nid et comm now))"
proof (cases "map_of (active_proposals e) pid")
  case None
  then have "pid \<notin> fst ` set (active_proposals e)"
    by (simp add: map_of_eq_None_iff)
  then show ?thesis using inv
    by (simp add: submit_echo_not_found engine_inv_stdout)
next
  case (Some r)
  then have rin: "r \<in> active_refs e" by (rule map_of_active_ref)
  show ?thesis
  proof (cases "is_expired (heap e r) now")
    case True
    have "engine_inv ((e\<lparr>heap := (heap e)(r := (heap e r)\<lparr>status := EXPIRED\<rparr>)\<rparr>)
             \<lparr>stdout := stdout e @ [''Proposal '' @ pid @ '' has expired'']\<rparr>)"
      unfolding engine_inv_stdout using inv rin by (rule engine_inv_heap_active)
    then show ?thesis
      by (simp add: submit_echo_expired[OF Some True])
  next
    case False
    define x where "x = EchoResponse_init nid pid et comm now"
    define p where "p = (heap e r)\<lparr>echoes := AList.update nid x (echoes (heap e r))\<rparr>"
    define ln where "ln = ''Echo received from '' @ nid @ '': '' @ EchoType_value et"
    have ae: "add_echo (heap e r) nid (EchoResponse_init nid pid et comm now) = (p, ln)"
      by (simp add: p_def ln_def x_def add_echo_def EchoResponse_init_def)
    have "echoes p \<noteq> []" by (simp add: p_def)
    then obtain b where b: "convergence_achieved (calculate_resonance p) = Some b"
      using calculate_resonance_nonempty[of p] by blast
    show ?thesis
    proof (cases b)
      case True
      have eq: "snd (submit_echo e pid nid et comm now) =
        (e\<lparr> heap := (heap e)(r := p\<lparr>status := CONVERGED\<rparr>),
           proposal_history := proposal_history e @ [r],
           active_proposals := AList.delete pid (active_proposals e) \<rparr>)
         \<lparr>stdout := stdout e @ [ln, ''Proposal '' @ title p @ '' achieved consensus!'']\<rparr>"
        using Some False b True
        by (simp add: submit_echo_def Let_def ae)
      show ?thesis
        unfolding eq engine_inv_stdout
        using inv Some by (rule engine_inv_converge) simp
    next
      case F: False
      have eq: "snd (submit_echo e pid nid et comm now) =
        (e\<lparr> heap := (heap e)(r := p)\<rparr>)\<lparr>stdout := stdout e @ [ln]\<rparr>"
        using Some False b F
        by (simp add: submit_echo_def Let_def ae)
      show ?thesis
        unfolding eq engine_inv_stdout
        using inv rin by (rule engine_inv_heap_active)
    qed
  qed
qed

lemma reachable_engine_inv: "reachable e \<Longrightarrow> engine_inv e"
proof (induction rule: reachable.induct)
  case reachable_init
  show ?case by (rule engine_inv_init)
next
  case (reachable_create e uuid proposer ttl descr ptype now)
  then show ?case by (simp add: engine_inv_create)
next
  case (reachable_submit e pid nid et comm now)
  then show ?case by (simp add: engine_inv_submit)
qed

lemma reachable_ex_converged: "reachable ex_converged"
  unfolding ex_converged_def ex_created_def
  by (intro reachable.intros)

subsection \<open>Claims about the engine\<close>

text \<open>
  C2, as stated: a vote on an active proposal whose \<open>expires_at\<close> has passed fails,
  sets the status to \<open>EXPIRED\<close>, moves the proposal from the active set into the history
  and records no vote. The code does not move the proposal: in \<open>ex_created\<close>, a vote at
  \<open>ex_late\<close> returns \<open>False\<close> and sets the status, but the proposal is still under its
  key in the active dictionary and the history is still empty.
\<close>

theorem submit_echo_expired_stays_active:
  "map_of (active_proposals ex_created) ''p1'' = Some 0 \<and>
   is_expired (heap ex_created 0) ex_late \<and>
   fst (submit_echo ex_created ''p1'' ''gemini'' RESONANT ''ok'' ex_late) = Returned False \<and>
   status (heap ex_after_late_vote 0) = EXPIRED \<and>
   map_of (active_proposals ex_after_late_vote) ''p1'' = Some 0 \<and>
   proposal_history ex_after_late_vote = []"
  by (simp add: ex_after_late_vote_def ex_created_eq ex_late_def submit_echo_def is_expired_def Let_def)

text \<open>
  C2, amended: such a vote returns \<open>False\<close> after printing that the proposal has
  expired, sets the status to \<open>EXPIRED\<close> and changes nothing else of the proposal (its
  vote map is unchanged); the proposal stays in the active dictionary and the history is
  unchanged.
\<close>

theorem submit_echo_expired_rejected:
  assumes act: "map_of (active_proposals e) pid = Some r"
      and late: "is_expired (heap e r) now"
  shows "(case submit_echo e pid nid et comm now of (res, e') \<Rightarrow>
           res = Returned False \<and>
           last (stdout e') = ''Proposal '' @ pid @ '' has expired'' \<and>
           heap e' r = (heap e r)\<lparr>status := EXPIRED\<rparr> \<and>
           status (heap e' r) = EXPIRED \<and>
           echoes (heap e' r) = echoes (heap e r) \<and>
           active_proposals e' = active_proposals e \<and>
           proposal_history e' = proposal_history e)"
  by (simp add: submit_echo_expired[OF act late])

theorem submit_echo_expired_rejected_witness:
  "map_of (active_proposals ex_created) ''p1'' = Some 0 \<and>
   is_expired (heap ex_created 0) ex_late \<and>
   (case submit_echo ex_created ''p1'' ''gemini'' RESONANT ''ok'' ex_late of (res, e') \<Rightarrow>
           res = Returned False \<and>
           last (stdout e') = ''Proposal '' @ ''p1'' @ '' has expired'' \<and>
           heap e' 0 = (heap ex_created 0)\<lparr>status := EXPIRED\<rparr> \<and>
           status (heap e' 0) = EXPIRED \<and>
           echoes (heap e' 0) = echoes (heap ex_created 0) \<and>
           active_proposals e' = active_proposals ex_created \<and>
           proposal_history e' = proposal_history ex_created)"
proof -
  have a: "map_of (active_proposals ex_created) ''p1'' = Some 0"
    by (simp add: ex_created_eq)
  have b: "is_expired (heap ex_created 0) ex_late"
    by (simp add: ex_created_eq ex_late_def is_expired_def)
  from a b submit_echo_expired_rejected [OF a b, of "''gemini''" RESONANT "''ok''"] show ?thesis by blast
qed

text \<open>
  C3: on a proposal just created and not yet expired, resonant votes submitted from three
  nodes give a tally with consensus strength 100 and convergence achieved, status
  \<open>CONVERGED\<close>, the proposal out of the active dictionary and appended to the history,
  the status change and the move being made by one and the same call of
  \<open>submit_echo\<close>. That call is the first one (the state \<open>e2\<close>): the second and third
  calls find the proposal gone and return \<open>False\<close>. Nothing is assumed of the three
  node ids, so the statement covers distinct ones.
\<close>

theorem three_resonant_votes_converge:
  assumes fresh: "\<not> t1 > t0 + timedelta_hours 24"
  shows "(case create_proposal e uuid proposer ttl descr ptype t0 of (r, e1) \<Rightarrow>
          case submit_echo e1 uuid n1 RESONANT m1 t1 of (res1, e2) \<Rightarrow>
          case submit_echo e2 uuid n2 RESONANT m2 t2 of (res2, e3) \<Rightarrow>
          case submit_echo e3 uuid n3 RESONANT m3 t3 of (res3, e4) \<Rightarrow>
            res1 = Returned True \<and> status (heap e2 r) = CONVERGED \<and>
            uuid \<notin> fst ` set (active_proposals e2) \<and>
            proposal_history e2 = proposal_history e @ [r] \<and>
            res2 = Returned False \<and> res3 = Returned False \<and>
            consensus_strength (calculate_resonance (heap e4 r)) = 100 \<and>
            convergence_achieved (calculate_resonance (heap e4 r)) = Some True \<and>
            status (heap e4 r) = CONVERGED \<and>
            uuid \<notin> fst ` set (active_proposals e4) \<and>
            proposal_history e4 = proposal_history e @ [r])"
proof -
  define r where "r = next_ref e"
  define e1 where "e1 = snd (create_proposal e uuid proposer ttl descr ptype t0)"
  define e2 where "e2 = snd (submit_echo e1 uuid n1 RESONANT m1 t1)"
  define e3 where "e3 = snd (submit_echo e2 uuid n2 RESONANT m2 t2)"
  define e4 where "e4 = snd (submit_echo e3 uuid n3 RESONANT m3 t3)"
  have c: "create_proposal e uuid proposer ttl descr ptype t0 = (r, e1)"
    by (simp add: r_def e1_def create_proposal_eq)
  have act: "map_of (active_proposals e1) uuid = Some r"
    by (simp add: e1_def r_def create_proposal_eq update_conv')
  have emp: "echoes (heap e1 r) = []"
    by (simp add: e1_def r_def create_proposal_eq ConsciousnessProposal_init_def)
  have nexp: "\<not> is_expired (heap e1 r) t1"
    using fresh
    by (simp add: e1_def r_def create_proposal_eq ConsciousnessProposal_init_def is_expired_def)
  have h1: "proposal_history e1 = proposal_history e"
    by (simp add: e1_def create_proposal_eq)
  let ?x = "EchoResponse_init n1 uuid RESONANT m1 t1"
  let ?p = "(heap e1 r)\<lparr>echoes := [(n1, ?x)]\<rparr>"
  have conv: "convergence_achieved (calculate_resonance ?p) = Some True"
    by (rule calculate_resonance_single(2)[of _ n1 ?x]) simp
  have str: "consensus_strength (calculate_resonance ?p) = 100"
    by (rule calculate_resonance_single(1)[of _ n1 ?x]) simp
  note first = submit_echo_first_vote[OF act emp nexp, of n1 RESONANT m1]
  have s1: "submit_echo e1 uuid n1 RESONANT m1 t1 = (Returned True, e2)"
    by (simp add: e2_def first)
  have heap2: "heap e2 r = ?p\<lparr>status := CONVERGED\<rparr>"
    and hist2: "proposal_history e2 = proposal_history e @ [r]"
    and gone2: "uuid \<notin> fst ` set (active_proposals e2)"
    by (simp_all add: e2_def first h1 AList.delete_notin_dom)
  have s2: "submit_echo e2 uuid n2 RESONANT m2 t2 = (Returned False, e3)"
    by (simp add: e3_def submit_echo_not_found[OF gone2])
  have heap3: "heap e3 r = heap e2 r"
    and hist3: "proposal_history e3 = proposal_history e2"
    and gone3: "uuid \<notin> fst ` set (active_proposals e3)"
    using gone2 by (simp_all add: e3_def submit_echo_not_found[OF gone2])
  have s3: "submit_echo e3 uuid n3 RESONANT m3 t3 = (Returned False, e4)"
    by (simp add: e4_def submit_echo_not_found[OF gone3])
  have heap4: "heap e4 r = heap e3 r"
    and hist4: "proposal_history e4 = proposal_history e3"
    and gone4: "uuid \<notin> fst ` set (active_proposals e4)"
    using gone3 by (simp_all add: e4_def submit_echo_not_found[OF gone3])
  show ?thesis
    using gone2 gone4 str conv
    by (simp add: c s1 s2 s3 heap4 heap3 heap2 hist4 hist3 hist2)
qed

theorem three_resonant_votes_converge_witness:
  "\<not> (1000::int) > 0 + timedelta_hours 24 \<and>
   (case create_proposal EchoConsensusEngine_init ''p1'' ''claude'' ''T'' ''D'' ''general'' 0 of (r, e1) \<Rightarrow>
          case submit_echo e1 ''p1'' ''chatgpt'' RESONANT ''a'' 1000 of (res1, e2) \<Rightarrow>
          case submit_echo e2 ''p1'' ''gemini'' RESONANT ''b'' 2000 of (res2, e3) \<Rightarrow>
          case submit_echo e3 ''p1'' ''human'' RESONANT ''c'' 3000 of (res3, e4) \<Rightarrow>
            r = 0 \<and> res1 = Returned True \<and> res2 = Returned False \<and> res3 = Returned False \<and>
            consensus_strength (calculate_resonance (heap e4 r)) = 100 \<and>
            convergence_achieved (calculate_resonance (heap e4 r)) = Some True \<and>
            status (heap e4 r) = CONVERGED \<and>
            ''p1'' \<notin> fst ` set (active_proposals e4) \<and>
            proposal_history e4 = [0])"
proof -
  have a: "\<not> (1000::int) > 0 + timedelta_hours 24"
    by (simp add: timedelta_hours_def)
  have r: "fst (create_proposal EchoConsensusEngine_init ''p1'' ''claude'' ''T'' ''D'' ''general'' 0) = 0"
    by (simp add: create_proposal_def EchoConsensusEngine_init_def Let_def)
  from a r three_resonant_votes_converge [OF a, where e = EchoConsensusEngine_init and uuid = "''p1''" and proposer = "''claude''"
                 and ttl = "''T''" and descr = "''D''" and ptype = "''general''"
                 and ?n1.0 = "''chatgpt''" and ?m1.0 = "''a''" and ?n2.0 = "''gemini''"
                 and ?m2.0 = "''b''" and ?t2.0 = 2000 and ?n3.0 = "''human''" and ?m3.0 = "''c''"
                 and ?t3.0 = 3000]
  show ?thesis
    by (simp add: split_def EchoConsensusEngine_init_def)
qed

text \<open>
  C4, as stated: \<open>list_active_proposals\<close> returns no proposal whose \<open>expires_at\<close> has
  passed and sets the status of every expired proposal it meets to \<open>EXPIRED\<close>. The
  code only leaves them out: listing \<open>ex_created\<close> at \<open>ex_late\<close> returns the empty
  list and the expired proposal still has status \<open>ACTIVE\<close>.
\<close>

theorem list_active_proposals_keeps_status:
  "map_of (active_proposals ex_created) ''p1'' = Some 0 \<and>
   is_expired (heap ex_created 0) ex_late \<and>
   fst (list_active_proposals ex_created ex_late) = [] \<and>
   status (heap (snd (list_active_proposals ex_created ex_late)) 0) = ACTIVE"
  by (simp add: list_active_proposals_def ex_created_eq ex_late_def is_expired_def)

text \<open>
  C4, amended: \<open>list_active_proposals\<close> returns no proposal whose \<open>expires_at\<close> has
  passed; expired proposals are left out of the returned list and nothing else happens to
  them: the engine, and so every status, is unchanged.
\<close>

theorem list_active_proposals_unexpired_only:
  "(\<forall>v \<in> set (fst (list_active_proposals e now)). \<not> now > d_expires_at (fst v)) \<and>
   snd (list_active_proposals e now) = e"
  by (auto simp: list_active_proposals_def to_dict_def is_expired_def)

theorem list_active_proposals_unexpired_only_witness:
  "(to_dict (heap ex_two (Suc 0)), calculate_resonance (heap ex_two (Suc 0)))
      \<in> set (fst (list_active_proposals ex_two ex_late)) \<and>
   \<not> ex_late > d_expires_at (to_dict (heap ex_two (Suc 0))) \<and>
   length (fst (list_active_proposals ex_two ex_late)) = 1 \<and>
   snd (list_active_proposals ex_two ex_late) = ex_two"
proof -
  have l: "fst (list_active_proposals ex_two ex_late) =
             [(to_dict (heap ex_two (Suc 0)), calculate_resonance (heap ex_two (Suc 0)))]"
    by (simp add: list_active_proposals_def ex_two_active ex_two_expires is_expired_def ex_late_def)
  from list_active_proposals_unexpired_only [of ex_two ex_late] l show ?thesis by simp
qed

text \<open>
  C5, as stated: for a proposal with an empty vote map the tally reports resonance score
  0, consensus strength 0 and convergence not achieved. The tally of the code says
  nothing of convergence: for the proposal of \<open>ex_created\<close>, which has no vote, the
  dictionary that \<open>get_proposal_status\<close> hands out has no \<open>convergence_achieved\<close> entry,
  so it does not hold \<open>False\<close> there.
\<close>

theorem calculate_resonance_no_votes_no_convergence_entry:
  "echoes (heap ex_created 0) = [] \<and>
   get_proposal_status ex_created ''p1'' =
     Some (to_dict (heap ex_created 0), calculate_resonance (heap ex_created 0)) \<and>
   convergence_achieved (calculate_resonance (heap ex_created 0)) = None \<and>
   convergence_achieved (calculate_resonance (heap ex_created 0)) \<noteq> Some False"
  by (simp add: ex_created_eq get_proposal_status_def calculate_resonance_def)

text \<open>
  C5, amended: for a proposal with an empty vote map the tally reports resonance score 0
  and consensus strength 0 and has no \<open>convergence_achieved\<close> entry: it reports
  convergence neither as achieved nor as not achieved.
\<close>

theorem calculate_resonance_no_votes:
  assumes "echoes p = []"
  shows "resonance_score (calculate_resonance p) = 0 \<and>
         consensus_strength (calculate_resonance p) = 0 \<and>
         convergence_achieved (calculate_resonance p) \<noteq> Some True \<and>
         convergence_achieved (calculate_resonance p) = None"
  using assms by (simp add: calculate_resonance_def)

theorem calculate_resonance_no_votes_witness:
  "echoes blank_proposal = [] \<and>
   resonance_score (calculate_resonance blank_proposal) = 0 \<and>
   consensus_strength (calculate_resonance blank_proposal) = 0 \<and>
   convergence_achieved (calculate_resonance blank_proposal) \<noteq> Some True \<and>
   convergence_achieved (calculate_resonance blank_proposal) = None"
  using calculate_resonance_no_votes [of blank_proposal]
  by (simp add: blank_proposal_def ConsciousnessProposal_init_def)

text \<open>
  C6: on an active, unexpired proposal with an empty vote map the first vote, of any echo
  kind, succeeds and gives consensus strength 100 and convergence achieved; in the same
  call the proposal becomes \<open>CONVERGED\<close>, leaves the active dictionary and is appended
  to the history, with that single vote.
\<close>

theorem first_vote_converges:
  assumes act: "map_of (active_proposals e) pid = Some r"
      and emp: "echoes (heap e r) = []"
      and fresh: "\<not> is_expired (heap e r) now"
  shows "(case submit_echo e pid nid et comm now of (res, e') \<Rightarrow>
         res = Returned True \<and>
         length (echoes (heap e' r)) = 1 \<and>
         consensus_strength (calculate_resonance (heap e' r)) = 100 \<and>
         convergence_achieved (calculate_resonance (heap e' r)) = Some True \<and>
         status (heap e' r) = CONVERGED \<and>
         pid \<notin> fst ` set (active_proposals e') \<and>
         proposal_history e' = proposal_history e @ [r])"
proof -
  let ?x = "EchoResponse_init nid pid et comm now"
  let ?p = "(heap e r)\<lparr>echoes := [(nid, ?x)]\<rparr>"
  have conv: "convergence_achieved (calculate_resonance ?p) = Some True"
    by (rule calculate_resonance_single(2)[of _ nid ?x]) simp
  have str: "consensus_strength (calculate_resonance ?p) = 100"
    by (rule calculate_resonance_single(1)[of _ nid ?x]) simp
  show ?thesis using str conv
    by (simp add: submit_echo_first_vote[OF act emp fresh] AList.delete_notin_dom)
qed

theorem first_vote_converges_witness:
  "map_of (active_proposals ex_created) ''p1'' = Some 0 \<and>
   echoes (heap ex_created 0) = [] \<and>
   \<not> is_expired (heap ex_created 0) 1000 \<and>
   fst (submit_echo ex_created ''p1'' ''gemini'' INQUIRY ''why'' 1000) = Returned True \<and>
   consensus_strength (calculate_resonance (heap ex_converged 0)) = 100 \<and>
   convergence_achieved (calculate_resonance (heap ex_converged 0)) = Some True \<and>
   status (heap ex_converged 0) = CONVERGED \<and>
   ''p1'' \<notin> fst ` set (active_proposals ex_converged) \<and>
   proposal_history ex_converged = [0]"
proof -
  have a: "map_of (active_proposals ex_created) ''p1'' = Some 0"
    by (simp add: ex_created_eq)
  have b: "echoes (heap ex_created 0) = []"
    by (simp add: ex_created_eq)
  have c: "\<not> is_expired (heap ex_created 0) 1000"
    by (simp add: ex_created_eq is_expired_def)
  have d: "proposal_history ex_created = []"
    by (simp add: ex_created_eq)
  from a b c d first_vote_converges [OF a b c, of "''gemini''" INQUIRY "''why''"] show ?thesis
    by (simp add: split_def ex_converged_def)
qed

text \<open>
  C7: on an active, unexpired proposal, a vote from a node id that already has a vote
  recorded replaces that node's vote by the new response and leaves the number of entries
  of the vote map unchanged (the keys, their order and the other nodes' votes as well).
\<close>

theorem resubmit_replaces_vote:
  assumes act: "map_of (active_proposals e) pid = Some r"
      and fresh: "\<not> is_expired (heap e r) now"
      and voted: "nid \<in> fst ` set (echoes (heap e r))"
  shows "(case submit_echo e pid nid et comm now of (res, e') \<Rightarrow>
           res = Returned True \<and>
           length (echoes (heap e' r)) = length (echoes (heap e r)) \<and>
           map fst (echoes (heap e' r)) = map fst (echoes (heap e r)) \<and>
           map_of (echoes (heap e' r)) nid = Some (EchoResponse_init nid pid et comm now) \<and>
           (\<forall>n. n \<noteq> nid \<longrightarrow> map_of (echoes (heap e' r)) n = map_of (echoes (heap e r)) n))"
  using submit_echo_vote[OF act fresh, of nid et comm] voted
  by (simp add: split_def length_update_mem keys_update_mem update_conv')

theorem resubmit_replaces_vote_witness:
  "map_of (active_proposals ex_voted) ''p1'' = Some 0 \<and>
   \<not> is_expired (heap ex_voted 0) 1000 \<and>
   ''gemini'' \<in> fst ` set (echoes (heap ex_voted 0)) \<and>
   length (echoes (heap ex_voted 0)) = 2 \<and>
   (case submit_echo ex_voted ''p1'' ''gemini'' DISSONANT ''again'' 1000 of (res, e') \<Rightarrow>
      res = Returned True \<and>
      length (echoes (heap e' 0)) = 2 \<and>
      map_of (echoes (heap e' 0)) ''gemini'' =
        Some (EchoResponse_init ''gemini'' ''p1'' DISSONANT ''again'' 1000) \<and>
      map_of (echoes (heap e' 0)) ''human'' =
        Some (EchoResponse_init ''human'' ''p1'' RESONANT ''yes'' 600))"
proof -
  have a: "map_of (active_proposals ex_voted) ''p1'' = Some 0"
    by (simp add: ex_voted_def ex_created_eq)
  have b: "\<not> is_expired (heap ex_voted 0) 1000"
    by (simp add: ex_voted_def ex_created_eq is_expired_def add_echo_def)
  have c: "''gemini'' \<in> fst ` set (echoes (heap ex_voted 0))"
    by (simp add: ex_voted_echoes)
  have d: "length (echoes (heap ex_voted 0)) = 2"
    by (simp add: ex_voted_echoes)
  have h: "map_of (echoes (heap ex_voted 0)) ''human'' =
        Some (EchoResponse_init ''human'' ''p1'' RESONANT ''yes'' 600)"
    by (simp add: ex_voted_echoes)
  have ne: "''human'' \<noteq> ''gemini''" by simp
  from a b c d h ne resubmit_replaces_vote [OF a b c, of DISSONANT "''again''"] show ?thesis
    by (simp add: split_def)
qed

text \<open>
  C10: in every state that a sequence of \<open>create_proposal\<close> and \<open>submit_echo\<close> calls
  produces from a new engine, every proposal in the history has status \<open>CONVERGED\<close>.
  (The only assignment to the history is the one on the convergence branch, and an
  object in the history is no longer in the active dictionary, so no later call changes
  it.)
\<close>

theorem history_all_converged:
  assumes "reachable e"
  shows "\<forall>r \<in> set (proposal_history e). status (heap e r) = CONVERGED"
  using reachable_engine_inv[OF assms] unfolding engine_inv_def by blast

theorem history_all_converged_witness:
  "reachable ex_converged \<and> 0 \<in> set (proposal_history ex_converged) \<and>
   status (heap ex_converged 0) = CONVERGED"
proof -
  have h: "proposal_history ex_converged = [0]"
    by (simp add: ex_converged_def ex_created_eq submit_echo_first_vote is_expired_def)
  from history_all_converged [OF reachable_ex_converged] h reachable_ex_converged show ?thesis by simp
qed

section \<open>Properties of the message handler and of the encryption\<close>










lemma field_b64_envelope:
  assumes "\<forall>b. b64decode L (b64encode L b) = Returned b"
  shows "field_b64 L (JObj [(''ciphertext'', JStr (b64encode L c)),
                            (''iv'', JStr (b64encode L iv)),
                            (''tag'', JStr (b64encode L t))]) ''ciphertext'' = Returned c"
    and "field_b64 L (JObj [(''ciphertext'', JStr (b64encode L c)),
                            (''iv'', JStr (b64encode L iv)),
                            (''tag'', JStr (b64encode L t))]) ''iv'' = Returned iv"
    and "field_b64 L (JObj [(''ciphertext'', JStr (b64encode L c)),
                            (''iv'', JStr (b64encode L iv)),
                            (''tag'', JStr (b64encode L t))]) ''tag'' = Returned t"
  using assms by (simp_all add: field_b64_def)

lemma decrypt_of_encrypt:
  assumes lib: "library_round_trips L"
      and a: "aes_gcm_encrypt L shared_key iv = Returned encryptor"
      and u: "utf8_encode L message = Returned message_bytes"
      and ct: "encryptor message_bytes = (c, t)"
  shows "encrypt_message L iv message shared_key =
           Returned (JObj [(''ciphertext'', JStr (b64encode L c)),
                           (''iv'', JStr (b64encode L iv)),
                           (''tag'', JStr (b64encode L t))])"
    and "decrypt_message L (JObj [(''ciphertext'', JStr (b64encode L c)),
                                  (''iv'', JStr (b64encode L iv)),
                                  (''tag'', JStr (b64encode L t))]) shared_key =
           Returned message"
proof -
  show "encrypt_message L iv message shared_key =
           Returned (JObj [(''ciphertext'', JStr (b64encode L c)),
                           (''iv'', JStr (b64encode L iv)),
                           (''tag'', JStr (b64encode L t))])"
    by (simp add: encrypt_message_def u a ct)
  from lib have b: "\<forall>b. b64decode L (b64encode L b) = Returned b"
    by (simp add: library_round_trips_def)
  from lib a ct have d: "aes_gcm_decrypt L shared_key iv t c = Returned message_bytes"
    unfolding library_round_trips_def by blast
  from lib u have v: "utf8_decode L message_bytes = Returned message"
    unfolding library_round_trips_def by blast
  show "decrypt_message L (JObj [(''ciphertext'', JStr (b64encode L c)),
                                  (''iv'', JStr (b64encode L iv)),
                                  (''tag'', JStr (b64encode L t))]) shared_key =
           Returned message"
    unfolding decrypt_message_def
    by (simp add: field_b64_envelope[OF b] d v)
qed

lemma ex_library_round_trips: "library_round_trips ex_library"
  by (simp add: library_round_trips_def ex_library_def)



subsection \<open>Claims about messaging\<close>




text \<open>
  C8: for every plaintext and every session key, decrypting under the same key the
  envelope that \<open>encrypt_message\<close> produced returns the plaintext, whatever the nonce;
  and \<open>encrypt_message\<close> produces an envelope unless the UTF-8 encoder or the cipher
  raises (an unencodable string, a key of a wrong length). The cipher and the two
  encodings are library functions: the statement is for every library that satisfies
  \<open>library_round_trips\<close>.
\<close>

theorem decrypt_encrypt_round_trip:
  assumes lib: "library_round_trips L"
  shows "(case encrypt_message L iv message shared_key of
            Returned envelope \<Rightarrow> decrypt_message L envelope shared_key = Returned message
          | Raised e \<Rightarrow>
              aes_gcm_encrypt L shared_key iv = Raised e \<or>
              utf8_encode L message = Raised e)"
proof (cases "aes_gcm_encrypt L shared_key iv")
  case (Raised e)
  then show ?thesis by (simp add: encrypt_message_def)
next
  case a: (Returned encryptor)
  show ?thesis
  proof (cases "utf8_encode L message")
    case (Raised e)
    with a show ?thesis by (simp add: encrypt_message_def)
  next
    case u: (Returned message_bytes)
    obtain c t where ct: "encryptor message_bytes = (c, t)"
      by (cases "encryptor message_bytes")
    from decrypt_of_encrypt[OF lib a u ct] show ?thesis by simp
  qed
qed

theorem decrypt_encrypt_round_trip_witness:
  "library_round_trips ex_library \<and>
   encrypt_message ex_library ''iv'' ''M'' ''kb'' = Returned ex_envelope \<and>
   decrypt_message ex_library ex_envelope ''kb'' = Returned ''M''"
proof -
  have e: "encrypt_message ex_library ''iv'' ''M'' ''kb'' = Returned ex_envelope"
    by (simp add: encrypt_message_def ex_library_def ex_envelope_def)
  from decrypt_encrypt_round_trip [OF ex_library_round_trips, where iv = "''iv''" and message = "''M''"
                and shared_key = "''kb''"] ex_library_round_trips e
  show ?thesis by simp
qed



end
